theory Spec2Isabelle
  imports Complex_Main
begin

section \<open>Values, errors and tables\<close>

text \<open>
  The module \<open>atmPy/sizedistribution.py\<close> works on numpy arrays and pandas data frames of
  float64 numbers. Numbers are modelled by \<^typ>\<open>real\<close>: every result below is the result of
  exact arithmetic; rounding, overflow, \<open>inf\<close> and \<open>nan\<close> are outside the model (numpy
  divides by zero without raising; the theorems that divide assume non-zero divisors).

  An exception is a value of type \<open>error\<close>. The source raises \<open>ValueError\<close> and
  \<open>TypeError\<close> with a message; the message is kept. \<open>LibraryError\<close> stands for an
  exception raised inside numpy or pandas on operands of the wrong shape.
\<close>

datatype error =
    ValueError string
  | TypeError string
  | IndexError string
  | KeyError string
  | LibraryError string

text \<open>
  A pandas data frame: the number of its columns (the column labels \<open>'150-200'\<close> are derived
  from the bin edges and are not modelled) and its rows in index order, each a row key with
  the values of the row. A frame is well formed when every row has one value per column.
  Row keys (timestamps or altitudes) are numbers.
\<close>

record frame =
  columns :: nat
  rws :: "(real \<times> real list) list"


definition frame_index :: "frame \<Rightarrow> real list" where
  "frame_index df = map fst (rws df)"

text \<open>
  \<open>df * v\<close>, \<open>df / v\<close> with a one-dimensional array \<open>v\<close>: the array is broadcast over
  the rows, column by column; a length other than the number of columns raises.
\<close>

definition frame_op :: "(real \<Rightarrow> real \<Rightarrow> real) \<Rightarrow> frame \<Rightarrow> real list \<Rightarrow> error + frame" where
  "frame_op f df v =
     (if length v = columns df
      then Inr (df\<lparr>rws := map (\<lambda>r. (fst r, map2 f (snd r) v)) (rws df)\<rparr>)
      else Inl (LibraryError ''operands could not be broadcast together''))"

text \<open>\<open>df.loc[k] = v\<close>: overwrites every row of key \<open>k\<close>, or appends a new row.\<close>

definition loc_set :: "frame \<Rightarrow> real \<Rightarrow> real list \<Rightarrow> error + frame" where
  "loc_set df k v =
     (if length v \<noteq> columns df
      then Inl (LibraryError ''cannot set a row with mismatched columns'')
      else if k \<in> set (frame_index df)
      then Inr (df\<lparr>rws := map (\<lambda>r. if fst r = k then (k, v) else r) (rws df)\<rparr>)
      else Inr (df\<lparr>rws := rws df @ [(k, v)]\<rparr>))"

definition sort_index :: "frame \<Rightarrow> frame" where
  "sort_index df = df\<lparr>rws := sort_key fst (rws df)\<rparr>"

section \<open>The distribution table\<close>

text \<open>The dictionary \<open>distTypes\<close> of the module.\<close>

definition log_normal :: "string list" where
  "log_normal = [''dNdlogDp'', ''dSdlogDp'', ''dVdlogDp'']"

definition natural :: "string list" where
  "natural = [''dNdDp'', ''dSdDp'', ''dVdDp'']"

definition number :: "string list" where
  "number = [''dNdlogDp'', ''dNdDp'']"

definition surface :: "string list" where
  "surface = [''dSdlogDp'', ''dSdDp'']"

definition volume :: "string list" where
  "volume = [''dVdlogDp'', ''dVdDp'']"

text \<open>
  The attributes of a \<open>SizeDist\<close> object. The subclasses add attributes; functions on
  \<open>'a sizedist_scheme\<close> are the methods every subclass inherits.
\<close>

record sizedist =
  bins :: "real list"
  bincenters :: "real list"
  binwidth :: "real list"
  distributionType :: string
  data :: frame

datatype warning = GapsWarning nat | UnchangedCopy string | AODGaps

text \<open>\<open>np.median\<close>; of an empty array numpy returns \<open>nan\<close>, which no number exceeds.\<close>

definition median :: "real list \<Rightarrow> real" where
  "median xs =
     (let s = sort xs; n = length xs
      in if n = 0 then 0
         else if odd n then s ! (n div 2)
         else (s ! (n div 2 - 1) + s ! (n div 2)) / 2)"

fun set_rows :: "frame \<Rightarrow> real list \<Rightarrow> real list \<Rightarrow> error + frame" where
  "set_rows df [] z = Inr df"
| "set_rows df (k # ks) z =
     (case loc_set df k z of Inl e \<Rightarrow> Inl e | Inr df' \<Rightarrow> set_rows df' ks z)"

text \<open>
  \<open>SizeDist.fillGaps\<close>. \<open>whr\<close> are the positions of the deltas above the threshold
  (\<open>np.where(diff > threshold)[0]\<close>). The result is the object with its new table and the
  warnings emitted.
\<close>

definition fillGaps :: "real \<Rightarrow> 'a sizedist_scheme \<Rightarrow> error + ('a sizedist_scheme \<times> warning list)" where
  "fillGaps scale self =
     (let idx = frame_index (data self);
          diff = map2 (\<lambda>a b. a - b) (tl idx) (butlast idx);
          threshold = median diff * scale;
          whr = filter (\<lambda>i. diff ! i > threshold) [0 ..< length diff]
      in if length whr \<noteq> 0
         then
           (let gap_start = map (\<lambda>i. idx ! i) whr;
                gap_end = map (\<lambda>i. idx ! (i + 1)) whr;
                zeros = replicate (length (bincenters self)) 0
            in case set_rows (data self) (map (\<lambda>g. g + threshold) gap_start) zeros of
                 Inl e \<Rightarrow> Inl e
               | Inr df1 \<Rightarrow>
                   (case set_rows df1 (map (\<lambda>g. g - threshold) gap_end) zeros of
                      Inl e \<Rightarrow> Inl e
                    | Inr df2 \<Rightarrow>
                        Inr (self\<lparr>data := sort_index df2\<rparr>, [GapsWarning (length whr)])))
         else Inr (self, []))"

text \<open>
  \<open>SizeDist.__init__\<close>. \<open>dat\<close> is \<open>None\<close> or a frame; \<open>bcs\<close> is \<open>Some\<close> array when the
  caller passes a numpy array of bin centers and \<open>None\<close> otherwise (the default \<open>False\<close>).
\<close>

definition SizeDist_init ::
  "frame option \<Rightarrow> real list \<Rightarrow> string \<Rightarrow> real list option \<Rightarrow> bool \<Rightarrow> error + (sizedist \<times> warning list)" where
  "SizeDist_init dat bns distrType bcs fixGaps =
     (let self = \<lparr>bins = bns,
                  bincenters = (case bcs of Some b \<Rightarrow> b
                                | None \<Rightarrow> map (\<lambda>x. x / 2) (map2 (+) (tl bns) (butlast bns))),
                  binwidth = map2 (\<lambda>a b. a - b) (tl bns) (butlast bns),
                  distributionType = distrType,
                  data = \<lparr>columns = length bns - 1, rws = []\<rparr>\<rparr>
      in case dat of
           None \<Rightarrow> Inr (self, [])
         | Some df \<Rightarrow>
             (if fixGaps then fillGaps (11 / 10) (self\<lparr>data := df\<rparr>)
              else Inr (self\<lparr>data := df\<rparr>, [])))"

subsection \<open>Conversion between representation kinds\<close>

definition normal2log :: "'a sizedist_scheme \<Rightarrow> real list" where
  "normal2log self = map (\<lambda>c. c * ln 10) (bincenters self)"

definition conv2Surface :: "'a sizedist_scheme \<Rightarrow> real list" where
  "conv2Surface self = map (\<lambda>c. 4 * pi * (c / 2) ^ 2) (bincenters self)"

definition conv2Volume :: "'a sizedist_scheme \<Rightarrow> real list" where
  "conv2Volume self = map (\<lambda>c. 4 / 3 * pi * (c / 2) ^ 3) (bincenters self)"

definition not_an_option :: "string \<Rightarrow> error" where
  "not_an_option distType = ValueError (distType @ '' is not an option'')"

text \<open>
  The first \<open>if\<close> chain of \<open>_convert2otherDistribution\<close>: the diameter axis. \<open>self\<close> is the
  object converted, \<open>dist\<close> its copy under construction.
\<close>

definition diameter_axis ::
  "'a sizedist_scheme \<Rightarrow> 'a sizedist_scheme \<Rightarrow> string \<Rightarrow> error + 'a sizedist_scheme" where
  "diameter_axis self distc distType =
     (if distributionType distc = ''numberConcentration'' then Inr distc
      else if distType = ''numberConcentration'' then Inr distc
      else if distributionType distc \<in> set log_normal then
        (if distType \<in> set log_normal then Inr distc
         else (case frame_op (/) (data distc) (normal2log self) of
                 Inl e \<Rightarrow> Inl e | Inr df \<Rightarrow> Inr (distc\<lparr>data := df\<rparr>)))
      else if distributionType distc \<in> set natural then
        (if distType \<in> set natural then Inr distc
         else (case frame_op (*) (data distc) (normal2log self) of
                 Inl e \<Rightarrow> Inl e | Inr df \<Rightarrow> Inr (distc\<lparr>data := df\<rparr>)))
      else Inl (not_an_option distType))"

text \<open>The second chain: the weighting axis. \<open>*=\<close> and \<open>/=\<close> update the copy's table.\<close>

definition weighting_axis ::
  "'a sizedist_scheme \<Rightarrow> 'a sizedist_scheme \<Rightarrow> string \<Rightarrow> error + 'a sizedist_scheme" where
  "weighting_axis self distc distType =
     (let upd = (\<lambda>r. case r of Inl e \<Rightarrow> Inl e | Inr df \<Rightarrow> Inr (distc\<lparr>data := df\<rparr>))
      in
      if distributionType distc = ''numberConcentration'' then Inr distc
      else if distType = ''numberConcentration'' then Inr distc
      else if distributionType distc \<in> set number then
        (if distType \<in> set number then Inr distc
         else if distType \<in> set surface then
           upd (frame_op (*) (data distc) (conv2Surface self))
         else if distType \<in> set volume then
           upd (frame_op (*) (data distc) (conv2Volume self))
         else Inl (not_an_option distType))
      else if distributionType distc \<in> set surface then
        (if distType \<in> set surface then Inr distc
         else if distType \<in> set number then
           upd (frame_op (/) (data distc) (conv2Surface self))
         else if distType \<in> set volume then
           upd (frame_op (*) (data distc) (map2 (/) (conv2Volume self) (conv2Surface self)))
         else Inl (not_an_option distType))
      else if distributionType distc \<in> set volume then
        (if distType \<in> set volume then Inr distc
         else if distType \<in> set number then
           upd (frame_op (/) (data distc) (conv2Volume self))
         else if distType \<in> set surface then
           upd (frame_op (*) (data distc) (map2 (/) (conv2Surface self) (conv2Volume self)))
         else Inl (not_an_option distType))
      else Inl (not_an_option distType))"

text \<open>
  \<open>SizeDist._convert2otherDistribution\<close>. \<open>dist = self.copy()\<close> is a deep copy: in this
  value model the copy is the value itself (the object model of the last section makes the
  copy and the in-place updates explicit). \<open>convert2dNdDp\<close> is the call with \<open>'dNdDp'\<close>.
\<close>

function convert2otherDistribution ::
  "'a sizedist_scheme \<Rightarrow> string \<Rightarrow> error + 'a sizedist_scheme" where
  "convert2otherDistribution self distType =
     (let distc = self
      in if distributionType distc = distType then Inr distc
         else
           (case diameter_axis self distc distType of
              Inl e \<Rightarrow> Inl e
            | Inr dist1 \<Rightarrow>
           (case weighting_axis self dist1 distType of
              Inl e \<Rightarrow> Inl e
            | Inr dist2 \<Rightarrow>
                if distType = ''numberConcentration'' then
                  (case convert2otherDistribution dist2 ''dNdDp'' of
                     Inl e \<Rightarrow> Inl e
                   | Inr dist3 \<Rightarrow>
                       (case frame_op (*) (data dist3) (binwidth self) of
                          Inl e \<Rightarrow> Inl e
                        | Inr df \<Rightarrow> Inr (dist3\<lparr>data := df, distributionType := distType\<rparr>)))
                else if distributionType dist2 = ''numberConcentration'' then
                  (case frame_op (/) (data dist2) (binwidth self) of
                     Inl e \<Rightarrow> Inl e
                   | Inr df \<Rightarrow>
                       (case convert2otherDistribution
                               (dist2\<lparr>data := df, distributionType := ''dNdDp''\<rparr>) distType of
                          Inl e \<Rightarrow> Inl e
                        | Inr dist4 \<Rightarrow> Inr (dist4\<lparr>distributionType := distType\<rparr>)))
                else Inr (dist2\<lparr>distributionType := distType\<rparr>))))"
  by pat_completeness auto
termination
proof (relation "measure (\<lambda>(self, distType).
          (if distType = ''numberConcentration'' then 2 else 0) +
          (if distributionType self = ''numberConcentration'' then 1 else (0::nat)))")
  show "wf (measure (\<lambda>(self :: 'a sizedist_scheme, distType).
          (if distType = ''numberConcentration'' then 2 else 0) +
          (if distributionType self = ''numberConcentration'' then 1 else (0::nat))))"
    by simp
next
  fix self :: "'a sizedist_scheme" and distType distc x2 x2a
  assume "distc = self" "distType = ''numberConcentration''"
  then show "((x2a, ''dNdDp''), self, distType) \<in> measure (\<lambda>(self, distType).
          (if distType = ''numberConcentration'' then 2 else 0) +
          (if distributionType self = ''numberConcentration'' then 1 else (0::nat)))"
    by simp
next
  fix self :: "'a sizedist_scheme" and distType distc x2 x2a x2b
  assume a: "distc = self" "diameter_axis self distc distType = Inr x2"
    "weighting_axis self x2 distType = Inr x2a"
    "distType \<noteq> ''numberConcentration''"
    "distributionType x2a = ''numberConcentration''"
  have "distributionType x2 = distributionType self"
    using a(1,2) by (auto simp: diameter_axis_def split: if_splits sum.splits)
  moreover have "distributionType x2a = distributionType x2"
    using a(3) by (auto simp: weighting_axis_def Let_def split: if_splits sum.splits)
  ultimately have "distributionType self = ''numberConcentration''"
    using a(5) by simp
  then show "((x2a\<lparr>data := x2b, distributionType := ''dNdDp''\<rparr>, distType), self, distType)
      \<in> measure (\<lambda>(self, distType).
          (if distType = ''numberConcentration'' then 2 else 0) +
          (if distributionType self = ''numberConcentration'' then 1 else (0::nat)))"
    using a(4) by simp
qed

section \<open>The layer-indexed distribution\<close>

text \<open>
  A numpy array of one or of two dimensions; a two-dimensional array keeps the length of
  its rows, so that \<open>np.empty((0, 2))\<close> is \<open>Arr2 2 []\<close>.
\<close>

datatype ndarray = Arr1 "real list" | Arr2 nat "real list list"

record sizedist_LS = sizedist +
  layerbounderies :: ndarray
  layercenters :: ndarray

text \<open>\<open>(a[1:] + a[:-1]) / 2.\<close>, along the first axis.\<close>

fun midpoints :: "ndarray \<Rightarrow> ndarray" where
  "midpoints (Arr1 xs) = Arr1 (map (\<lambda>x. x / 2) (map2 (+) (tl xs) (butlast xs)))"
| "midpoints (Arr2 n rs) =
     Arr2 n (map (map (\<lambda>x. x / 2)) (map2 (map2 (+)) (tl rs) (butlast rs)))"

text \<open>
  \<open>SizeDist_LS.__init__\<close>: the base constructor is called with \<open>bincenters=False\<close> and
  \<open>fixGaps=True\<close>, whatever the caller passed.
\<close>

definition SizeDist_LS_init ::
  "frame option \<Rightarrow> real list \<Rightarrow> string \<Rightarrow> ndarray option \<Rightarrow> real list option \<Rightarrow> bool
     \<Rightarrow> error + (sizedist_LS \<times> warning list)" where
  "SizeDist_LS_init dat bns distrType lbs bcs fixGaps =
     (case SizeDist_init dat bns distrType None True of
        Inl e \<Rightarrow> Inl e
      | Inr (self, ws) \<Rightarrow>
          (case lbs of
             None \<Rightarrow>
               Inr (sizedist.extend self (sizedist_LS.fields (Arr2 2 []) (Arr1 [])), ws)
           | Some lb \<Rightarrow>
               Inr (sizedist.extend self (sizedist_LS.fields lb (midpoints lb)), ws)))"

text \<open>The numpy functions \<open>add_layer\<close> calls.\<close>

fun np_append_axis0 :: "ndarray \<Rightarrow> ndarray \<Rightarrow> error + ndarray" where
  "np_append_axis0 (Arr1 xs) (Arr1 ys) = Inr (Arr1 (xs @ ys))"
| "np_append_axis0 (Arr2 n rs) (Arr2 m rs') =
     (if n = m then Inr (Arr2 n (rs @ rs'))
      else Inl (LibraryError ''all the input array dimensions except for the concatenation axis must match exactly''))"
| "np_append_axis0 a b =
     Inl (LibraryError ''all the input arrays must have same number of dimensions'')"

fun flatten :: "ndarray \<Rightarrow> real list" where
  "flatten (Arr1 xs) = xs"
| "flatten (Arr2 n rs) = concat rs"

definition np_unique :: "ndarray \<Rightarrow> real list" where
  "np_unique a = sort (remdups (flatten a))"

definition np_where_eq :: "real list \<Rightarrow> real \<Rightarrow> nat list" where
  "np_where_eq u x = filter (\<lambda>i. u ! i = x) [0 ..< length u]"

text \<open>\<open>a.sort(axis=0)\<close>: every column of a two-dimensional array is sorted on its own.\<close>

fun sort_axis0 :: "ndarray \<Rightarrow> ndarray" where
  "sort_axis0 (Arr1 xs) = Arr1 (sort xs)"
| "sort_axis0 (Arr2 n rs) =
     Arr2 n (map (\<lambda>i. map (\<lambda>j. sort (map (\<lambda>r. r ! j) rs) ! i) [0 ..< n]) [0 ..< length rs])"

definition overlapping :: error where
  "overlapping = ValueError ''The new layer is overlapping with an existing layer!''"

text \<open>
  \<open>SizeDist_LS.add_layer\<close>. The method updates \<open>self\<close> in place and may raise after some
  attributes are already assigned, so the result is the exception raised, if any, with the
  object as the call leaves it. The tables appended carry the same column labels.
\<close>

definition add_layer ::
  "sizedist_LS \<Rightarrow> 'a sizedist_scheme \<Rightarrow> real list \<Rightarrow> error option \<times> sizedist_LS" where
  "add_layer self sd layerboundery =
     (if length layerboundery \<noteq> 2
      then (Some (ValueError ''layerboundery has to be of length 2''), self)
      else
        (case convert2otherDistribution sd (distributionType self) of
           Inl e \<Rightarrow> (Some e, self)
         | Inr sd1 \<Rightarrow>
        (case np_append_axis0 (layerbounderies self) (Arr2 2 [layerboundery]) of
           Inl e \<Rightarrow> (Some e, self)
         | Inr lbs \<Rightarrow>
        (let layerbounderiesU = np_unique lbs
         in case (np_where_eq layerbounderiesU (layerboundery ! 1),
                  np_where_eq layerbounderiesU (layerboundery ! 0)) of
              ([i], [j]) \<Rightarrow>
                (if int i - int j \<noteq> 1 then (Some overlapping, self)
                 else
                   (let layercenter = sum_list layerboundery / 2;
                        self1 = self\<lparr>layerbounderies := sort_axis0 lbs,
                                     layercenters :=
                                       Arr1 (sort (flatten (layercenters self) @ [layercenter]))\<rparr>
                    in if length (rws (data sd1)) \<noteq> 1
                       then (Some (LibraryError ''Length mismatch''), self1)
                       else
                         (None,
                          self1\<lparr>data := sort_index
                             ((data self)\<lparr>rws := rws (data self) @
                                 map (\<lambda>r. (layercenter, snd r)) (rws (data sd1))\<rparr>)\<rparr>)))
            | _ \<Rightarrow> (Some (IndexError ''index 0 is out of bounds''), self)))))"

subsection \<open>Aerosol optical depth\<close>

text \<open>
  \<open>_get_coefficients\<close>. Both arguments are updated in place by \<open>*=\<close>, so the function
  returns, with the coefficient, the arrays its arguments hold after the call.
\<close>

definition get_coefficients ::
  "real list \<Rightarrow> real list \<Rightarrow> error + (real list \<times> real list \<times> real list)" where
  "get_coefficients crossection cn =
     (let crossection1 = map (\<lambda>x. x * (1 / 10 ^ 12)) crossection;
          cn1 = map (\<lambda>x. x * 10 ^ 6) cn
      in if length cn1 = length crossection1
         then Inr (map2 (*) cn1 crossection1, crossection1, cn1)
         else Inl (LibraryError ''operands could not be broadcast together''))"

text \<open>
  The column \<open>extinction_crossection\<close> of \<open>_perform_Miecalculations\<close>. The Mie calculation
  \<open>bhmie_hagen\<close> is a parameter: \<open>bhmie x n nang d\<close> is the extinction cross-section it
  returns for size parameter \<open>x\<close>, refractive index \<open>n\<close>, \<open>nang\<close> angles and diameter \<open>d\<close>.
\<close>

definition perform_Miecalculations ::
  "(real \<Rightarrow> 'n \<Rightarrow> real \<Rightarrow> real \<Rightarrow> real) \<Rightarrow> real list \<Rightarrow> real \<Rightarrow> 'n \<Rightarrow> real list" where
  "perform_Miecalculations bhmie diam wavelength n =
     map (\<lambda>d. bhmie (2 * pi * (d / 2) / wavelength) n 100 d) diam"

text \<open>\<open>df.loc[k].values\<close> for a key that occurs once.\<close>

definition loc_get :: "frame \<Rightarrow> real \<Rightarrow> error + real list" where
  "loc_get df k =
     (case filter (\<lambda>r. fst r = k) (rws df) of
        [] \<Rightarrow> Inl (KeyError ''the label is not in the index'')
      | [r] \<Rightarrow> Inr (snd r)
      | _ \<Rightarrow> Inl (LibraryError ''the label selects several rows''))"

text \<open>\<open>a[i][1] - a[i][0]\<close>.\<close>

fun layer_thickness :: "ndarray \<Rightarrow> nat \<Rightarrow> error + real" where
  "layer_thickness (Arr1 xs) i = Inl (IndexError ''invalid index to scalar variable'')"
| "layer_thickness (Arr2 n rs) i =
     (if i < length rs \<and> 1 < length (rs ! i) then Inr (rs ! i ! 1 - rs ! i ! 0)
      else Inl (IndexError ''index out of bounds''))"

text \<open>
  The loop of \<open>calculate_AOD\<close> over \<open>enumerate(sdls.layercenters)\<close>, from position \<open>i\<close> on.
  \<open>mie.extinction_crossection\<close> is the same pandas series at every iteration, and
  \<open>_get_coefficients\<close> updates it in place: the loop passes on the series as the call
  leaves it. The result is \<open>AOD_layer\<close> and \<open>extCoeffPerLayer\<close> from \<open>i\<close> on.
  (\<open>cn *= 1e6\<close> updates the array \<open>laydata\<close>; no row is read twice when the layer centers
  are distinct.)
\<close>

fun aod_layers ::
  "frame \<Rightarrow> ndarray \<Rightarrow> real list \<Rightarrow> nat \<Rightarrow> real list \<Rightarrow> error + (real list \<times> real list list)" where
  "aod_layers df lbs crossection i [] = Inr ([], [])"
| "aod_layers df lbs crossection i (lc # lcs) =
     (case loc_get df lc of
        Inl e \<Rightarrow> Inl e
      | Inr laydata \<Rightarrow>
     (case get_coefficients crossection laydata of
        Inl e \<Rightarrow> Inl e
      | Inr (extinction_coefficient, crossection1, cn1) \<Rightarrow>
     (case layer_thickness lbs i of
        Inl e \<Rightarrow> Inl e
      | Inr layerThickness \<Rightarrow>
     (let AOD_perBin = map (\<lambda>x. x * layerThickness) extinction_coefficient
      in case aod_layers df lbs crossection1 (i + 1) lcs of
           Inl e \<Rightarrow> Inl e
         | Inr (aods, exts) \<Rightarrow>
             Inr (sum_list AOD_perBin # aods, extinction_coefficient # exts)))))"

record aod_out =
  AOD :: real
  AOD_layer :: "(real \<times> real) list"
  extCoeffPerLayer :: "(real \<times> real list) list"

definition calculate_AOD ::
  "(real \<Rightarrow> 'n \<Rightarrow> real \<Rightarrow> real \<Rightarrow> real) \<Rightarrow> sizedist_LS \<Rightarrow> real \<Rightarrow> 'n
     \<Rightarrow> error + (aod_out \<times> warning list)" where
  "calculate_AOD bhmie self wavelenth n =
     (case convert2otherDistribution self ''numberConcentration'' of
        Inl e \<Rightarrow> Inl e
      | Inr sdls \<Rightarrow>
          (let mie = perform_Miecalculations bhmie
                       (map (\<lambda>c. c / 1000) (bincenters sdls)) (wavelenth / 1000) n
           in case layercenters sdls of
                Arr2 m rs \<Rightarrow> Inl (LibraryError ''the label is not a number'')
              | Arr1 lcs \<Rightarrow>
                  (case aod_layers (data sdls) (layerbounderies sdls) mie 0 lcs of
                     Inl e \<Rightarrow> Inl e
                   | Inr (aods, exts) \<Rightarrow>
                       Inr (\<lparr>AOD = sum_list aods,
                             AOD_layer = zip lcs aods,
                             extCoeffPerLayer = zip lcs exts\<rparr>, [AODGaps]))))"

section \<open>Snapshots in text files\<close>

text \<open>
  A file is the list of its lines, each with its newline; \<open>readline\<close> returns the empty
  string at the end of the file. \<open>split_on\<close> is \<open>str.split(sep)\<close>, \<open>strip\<close> is
  \<open>str.strip()\<close>.
\<close>

definition nl :: string where
  "nl = [CHR 0x0A]"

fun split_on :: "char \<Rightarrow> string \<Rightarrow> string list" where
  "split_on c [] = [[]]"
| "split_on c (x # xs) =
     (if x = c then [] # split_on c xs
      else (case split_on c xs of p # ps \<Rightarrow> (x # p) # ps | [] \<Rightarrow> [[x]]))"

definition is_space :: "char \<Rightarrow> bool" where
  "is_space c = (c \<in> set [CHR '' '', CHR 0x09, CHR 0x0A, CHR 0x0B, CHR 0x0C, CHR 0x0D])"

definition strip :: "string \<Rightarrow> string" where
  "strip s = rev (dropWhile is_space (rev (dropWhile is_space s)))"

text \<open>
  The values of \<open>outDict\<close>: a string for the variables in \<open>nol\<close>, else the array
  \<open>np.array(eval(value))\<close>. Python's \<open>eval\<close> on the text of a list of numbers is the
  parameter \<open>ev\<close> of the loader.
\<close>

datatype hval = Str string | Arr "real list"

definition headerNo :: nat where
  "headerNo = 50"

definition readline :: "string list \<Rightarrow> nat \<Rightarrow> string" where
  "readline ls i = (if i < length ls then ls ! i else [])"

text \<open>
  The \<open>for\<close> loop of the loader over the positions \<open>i\<close> still to come; \<open>i0\<close> is the
  position before. The result is the position of the line that starts with \<open>#\<close> and the
  dictionary read so far.
\<close>

fun header_loop ::
  "(string \<Rightarrow> error + real list) \<Rightarrow> string list \<Rightarrow> nat list \<Rightarrow> nat \<Rightarrow> (string \<rightharpoonup> hval)
     \<Rightarrow> error + (nat \<times> (string \<rightharpoonup> hval))" where
  "header_loop ev ls [] i0 outDict = Inr (i0, outDict)"
| "header_loop ev ls (i # is) i0 outDict =
     (let split = split_on (CHR ''='') (readline ls i);
          variable = strip (split ! 0)
      in if split ! 0 = [] then Inl (IndexError ''string index out of range'')
         else if hd (split ! 0) = CHR ''#'' then Inr (i, outDict)
         else if length split < 2 then Inl (IndexError ''list index out of range'')
         else
           (let val = strip (split ! 1)
            in case (if variable \<in> set [''distributionType'', ''objectType'']
                     then Inr (Str val)
                     else (case ev val of Inl e \<Rightarrow> Inl e | Inr a \<Rightarrow> Inr (Arr a))) of
                 Inl e \<Rightarrow> Inl e
               | Inr v \<Rightarrow>
                   if i = headerNo - 1 then Inl (TypeError ''Sure this is a size distribution?'')
                   else header_loop ev ls is i (outDict(variable \<mapsto> v))))"

text \<open>An object of one of the three classes.\<close>

datatype distobj = Obj_SizeDist sizedist | Obj_SizeDist_TS sizedist | Obj_SizeDist_LS sizedist_LS

definition dict_bins :: "(string \<rightharpoonup> hval) \<Rightarrow> error + real list" where
  "dict_bins outDict =
     (case outDict ''bins'' of
        None \<Rightarrow> Inl (KeyError ''bins'')
      | Some (Arr b) \<Rightarrow> Inr b
      | Some (Str s) \<Rightarrow> Inl (LibraryError ''bins is no array''))"

definition dict_type :: "(string \<rightharpoonup> hval) \<Rightarrow> error + string" where
  "dict_type outDict =
     (case outDict ''distributionType'' of
        None \<Rightarrow> Inl (KeyError ''distributionType'')
      | Some (Str k) \<Rightarrow> Inr k
      | Some (Arr a) \<Rightarrow> Inl (LibraryError ''distributionType is no string''))"

text \<open>
  \<open>read_distribution_csv\<close>. \<open>pd.read_csv(fname, header=i + 1, index_col=0)\<close> and
  \<open>pd.to_datetime\<close> are the parameters \<open>pd_read_csv\<close> and \<open>pd_to_datetime\<close>. The
  arguments of a constructor call are evaluated before the call; the call of
  \<open>SizeDist_LS\<close> passes three positional arguments and \<open>fixGaps\<close> where the constructor
  requires \<open>layerbounderies\<close> as the fourth, so Python raises \<open>TypeError\<close>.
\<close>

definition read_distribution_csv ::
  "(string \<Rightarrow> error + real list) \<Rightarrow> (string list \<Rightarrow> nat \<Rightarrow> error + frame) \<Rightarrow>
   (real list \<Rightarrow> error + real list) \<Rightarrow> string list \<Rightarrow> bool \<Rightarrow> error + (distobj \<times> warning list)" where
  "read_distribution_csv ev pd_read_csv pd_to_datetime ls fixGaps =
     (case header_loop ev ls [0 ..< headerNo] 0 Map.empty of
        Inl e \<Rightarrow> Inl e
      | Inr (i, outDict) \<Rightarrow>
     (case pd_read_csv ls (i + 1) of
        Inl e \<Rightarrow> Inl e
      | Inr data0 \<Rightarrow>
     (case pd_to_datetime (frame_index data0) of
        Inl e \<Rightarrow> Inl e
      | Inr idx \<Rightarrow>
     (let dat = data0\<lparr>rws := zip idx (map snd (rws data0))\<rparr>;
          construct = (\<lambda>tag.
             case dict_bins outDict of Inl e \<Rightarrow> Inl e | Inr b \<Rightarrow>
            (case dict_type outDict of Inl e \<Rightarrow> Inl e | Inr k \<Rightarrow>
            (case SizeDist_init (Some dat) b k None fixGaps of
               Inl e \<Rightarrow> Inl e
             | Inr (self, ws) \<Rightarrow> Inr (tag self, ws))))
      in case outDict ''objectType'' of
           None \<Rightarrow> Inl (KeyError ''objectType'')
         | Some ot \<Rightarrow>
             if ot = Str ''SizeDist_TS'' then construct Obj_SizeDist_TS
             else if ot = Str ''SizeDist'' then construct Obj_SizeDist
             else if ot = Str ''SizeDist_LS'' then
               (case dict_bins outDict of Inl e \<Rightarrow> Inl e | Inr b \<Rightarrow>
               (case dict_type outDict of Inl e \<Rightarrow> Inl e | Inr k \<Rightarrow>
                  Inl (TypeError ''__init__() missing 1 required positional argument: layerbounderies'')))
             else Inl (TypeError ''not a valid object type'')))))"

text \<open>
  \<open>SizeDist.save_csv\<close>: the lines written. \<open>tolist_str\<close> is the text Python prints for
  \<open>self.bins.tolist()\<close>, \<open>to_csv\<close> the lines \<open>self.data.to_csv\<close> appends and \<open>cls\<close>
  the name of the object's class, \<open>type(self).__name__\<close>.
\<close>

definition save_csv ::
  "(real list \<Rightarrow> string) \<Rightarrow> (frame \<Rightarrow> string list) \<Rightarrow> string \<Rightarrow> 'a sizedist_scheme \<Rightarrow> string list" where
  "save_csv tolist_str to_csv cls self =
     [''bins = '' @ tolist_str (bins self) @ nl,
      ''distributionType = '' @ distributionType self @ nl,
      ''objectType = '' @ cls @ nl,
      ''#'' @ nl] @ to_csv (data self)"

section \<open>Notions used in the statements and proofs\<close>


text \<open>
  A table with every value of bin \<open>j\<close> multiplied by \<open>g\<close> of the \<open>j\<close>-th bin center, and
  the factors by which a conversion between two of the six kinds multiplies: \<open>dfac\<close> on the
  diameter axis, \<open>wfac\<close> on the weighting axis, \<open>cfac\<close> their product. The lemmas
  \<open>diameter_axis_six\<close>, \<open>weighting_axis_six\<close> and \<open>convert_six\<close> show that the
  conversion computes them.
\<close>

definition scale_rows :: "(real \<Rightarrow> real) \<Rightarrow> real list \<Rightarrow> frame \<Rightarrow> frame" where
  "scale_rows g bc df = df\<lparr>rws := map (\<lambda>r. (fst r, map2 (\<lambda>x c. x * g c) (snd r) bc)) (rws df)\<rparr>"





text \<open>A message mentions a kind when the kind's name occurs in it.\<close>

fun starts_with :: "string \<Rightarrow> string \<Rightarrow> bool" where
  "starts_with s [] = True"
| "starts_with [] (c # cs) = False"
| "starts_with (x # xs) (c # cs) = (x = c \<and> starts_with xs cs)"

fun mentions :: "string \<Rightarrow> string \<Rightarrow> bool" where
  "mentions [] k = (k = [])"
| "mentions (x # xs) k = (starts_with (x # xs) k \<or> mentions xs k)"

section \<open>Example objects\<close>

text \<open>A table of kind \<open>dNdDp\<close> with two bins, 100 to 200 nm and 200 to 400 nm, and two rows.\<close>

definition example_table :: sizedist where
  "example_table =
     \<lparr>bins = [100, 200, 400], bincenters = [150, 300], binwidth = [100, 200],
      distributionType = ''dNdDp'',
      data = \<lparr>columns = 2, rws = [(0, [5, 7]), (1, [6, 8])]\<rparr>\<rparr>"

text \<open>
  A table of ten rows with keys one apart but for one gap, between the keys 4 and 9: the
  median delta is 1 and the gap is 5 times the median. \<open>filled_frame\<close> is its table after
  \<open>fillGaps\<close>.
\<close>

definition gap_frame :: frame where
  "gap_frame = \<lparr>columns = 1, rws = [(0, [1]), (1, [1]), (2, [1]), (3, [1]), (4, [1]),
      (9, [1]), (10, [1]), (11, [1]), (12, [1]), (13, [1])]\<rparr>"

definition gap_table :: sizedist where
  "gap_table = \<lparr>bins = [100, 200], bincenters = [150], binwidth = [100],
      distributionType = ''dNdDp'', data = gap_frame\<rparr>"

definition filled_frame :: frame where
  "filled_frame = \<lparr>columns = 1, rws = [(0, [1]), (1, [1]), (2, [1]), (3, [1]), (4, [1]),
      (51 / 10, [0]), (79 / 10, [0]), (9, [1]), (10, [1]), (11, [1]), (12, [1]), (13, [1])]\<rparr>"

text \<open>
  Layer-indexed distributions: \<open>empty_layers\<close> is the object the constructor returns for
  no data and no boundaries (lemma \<open>empty_layers_init\<close>); \<open>one_layer\<close> is what
  \<open>add_layer\<close> makes of it with the layer (100, 200) (lemma \<open>first_layer\<close>),
  \<open>two_layers\<close> with the layer (200, 300) added, \<open>wide_layer\<close> is \<open>empty_layers\<close> with
  the layer (100, 300). \<open>one_row\<close> is the single-row distribution added each time.
\<close>

definition empty_layers :: sizedist_LS where
  "empty_layers = \<lparr>bins = [100, 200], bincenters = [150], binwidth = [100],
      distributionType = ''dNdDp'', data = \<lparr>columns = 1, rws = []\<rparr>,
      layerbounderies = Arr2 2 [], layercenters = Arr1 []\<rparr>"

definition one_row :: sizedist where
  "one_row = \<lparr>bins = [100, 200], bincenters = [150], binwidth = [100],
      distributionType = ''dNdDp'', data = \<lparr>columns = 1, rws = [(0, [500])]\<rparr>\<rparr>"

definition one_layer :: sizedist_LS where
  "one_layer = empty_layers\<lparr>layerbounderies := Arr2 2 [[100, 200]], layercenters := Arr1 [150],
      data := \<lparr>columns = 1, rws = [(150, [500])]\<rparr>\<rparr>"

definition wide_layer :: sizedist_LS where
  "wide_layer = empty_layers\<lparr>layerbounderies := Arr2 2 [[100, 300]], layercenters := Arr1 [200],
      data := \<lparr>columns = 1, rws = [(200, [500])]\<rparr>\<rparr>"

definition two_layers :: sizedist_LS where
  "two_layers = empty_layers\<lparr>layerbounderies := Arr2 2 [[100, 200], [200, 300]],
        layercenters := Arr1 [150, 250],
        data := \<lparr>columns = 1, rws = [(150, [500]), (250, [500])]\<rparr>\<rparr>"

section \<open>Conversion lemmas\<close>

declare convert2otherDistribution.simps [simp del]

lemma diameter_axis_kind:
  "diameter_axis self d t = Inr d' \<Longrightarrow> distributionType d' = distributionType d"
  by (auto simp: diameter_axis_def split: if_splits sum.splits)

lemma weighting_axis_kind:
  "weighting_axis self d t = Inr d' \<Longrightarrow> distributionType d' = distributionType d"
  by (auto simp: weighting_axis_def Let_def split: if_splits sum.splits)

lemma convert_axes:
  assumes "distributionType self \<noteq> ''numberConcentration''" "t \<noteq> ''numberConcentration''"
  shows "convert2otherDistribution self t =
     (if distributionType self = t then Inr self
      else case diameter_axis self self t of Inl e \<Rightarrow> Inl e
        | Inr d1 \<Rightarrow> (case weighting_axis self d1 t of Inl e \<Rightarrow> Inl e
            | Inr d2 \<Rightarrow> Inr (d2\<lparr>distributionType := t\<rparr>)))"
  using assms
  by (subst convert2otherDistribution.simps)
     (auto simp: Let_def split: sum.splits dest!: diameter_axis_kind weighting_axis_kind)





lemma columns_scale_rows [simp]: "columns (scale_rows g bc df) = columns df"
  by (simp add: scale_rows_def)

lemma scale_rows_scale_rows [simp]:
  "scale_rows g bc (scale_rows h bc df) = scale_rows (\<lambda>c. h c * g c) bc df"
proof -
  have "map2 (\<lambda>x c. x * g c) (map2 (\<lambda>x c. x * h c) r bc) bc = map2 (\<lambda>x c. x * (h c * g c)) r bc"
    for r :: "real list"
  proof (induction r arbitrary: bc)
    case Nil
    then show ?case by simp
  next
    case (Cons a r)
    then show ?case by (cases bc) (simp_all add: mult.assoc)
  qed
  then show ?thesis by (simp add: scale_rows_def comp_def)
qed



lemmas kind_defs = log_normal_def natural_def number_def surface_def volume_def












lemma calibration_source:
  assumes "distributionType self = ''calibration''" "t \<noteq> ''calibration''"
  shows "convert2otherDistribution self t =
     Inl (ValueError ((if t = ''numberConcentration'' then ''dNdDp'' else t) @ '' is not an option''))"
proof (cases "t = ''numberConcentration''")
  case True
  have "convert2otherDistribution self ''dNdDp'' = Inl (not_an_option ''dNdDp'')"
    using assms(1) by (simp add: convert_axes diameter_axis_def kind_defs)
  then show ?thesis
    using True assms(1)
    by (subst convert2otherDistribution.simps)
       (simp add: diameter_axis_def weighting_axis_def not_an_option_def)
next
  case False
  then show ?thesis
    using assms by (simp add: convert_axes diameter_axis_def kind_defs not_an_option_def)
qed

lemma calibration_no_basis:
  "''calibration'' \<notin> set log_normal" "''calibration'' \<notin> set natural"
  "''calibration'' \<notin> set number" "''calibration'' \<notin> set surface" "''calibration'' \<notin> set volume"
  by (simp_all add: kind_defs)

lemma weighting_axis_calibration:
  "distributionType d \<noteq> ''numberConcentration'' \<Longrightarrow>
   weighting_axis self d ''calibration'' = Inl (not_an_option ''calibration'')"
  by (simp add: weighting_axis_def Let_def calibration_no_basis)

lemma diameter_axis_calibration:
  assumes "distributionType d \<noteq> ''numberConcentration''"
    and "length (bincenters self) = columns (data d)"
  shows "diameter_axis self d ''calibration'' = Inl (not_an_option ''calibration'') \<or>
     (\<exists>df. diameter_axis self d ''calibration'' = Inr (d\<lparr>data := df\<rparr>))"
  using assms
  by (auto simp: diameter_axis_def calibration_no_basis frame_op_def normal2log_def)

lemma calibration_target_axes:
  assumes "distributionType self \<noteq> ''calibration''" "distributionType self \<noteq> ''numberConcentration''"
    and "length (bincenters self) = columns (data self)"
  shows "convert2otherDistribution self ''calibration'' = Inl (not_an_option ''calibration'')"
  using diameter_axis_calibration [OF assms(2,3)] assms(1,2)
  by (auto simp: convert_axes weighting_axis_calibration)

lemma calibration_target:
  assumes "distributionType self \<noteq> ''calibration''"
    and "length (bincenters self) = columns (data self)"
    and "length (binwidth self) = columns (data self)"
  shows "convert2otherDistribution self ''calibration'' =
     Inl (ValueError ''calibration is not an option'')"
proof (cases "distributionType self = ''numberConcentration''")
  case False
  then show ?thesis
    using calibration_target_axes [OF assms(1) False assms(2)] by (simp add: not_an_option_def)
next
  case True
  let ?d = "self\<lparr>data := (data self)\<lparr>rws := map (\<lambda>r. (fst r, map2 (/) (snd r) (binwidth self))) (rws (data self))\<rparr>,
      distributionType := ''dNdDp''\<rparr>"
  have "convert2otherDistribution ?d ''calibration'' = Inl (not_an_option ''calibration'')"
    by (rule calibration_target_axes) (use assms in simp_all)
  then show ?thesis
    using True assms(3)
    by (subst convert2otherDistribution.simps)
       (simp add: diameter_axis_def weighting_axis_def frame_op_def not_an_option_def)
qed

section \<open>Gap filling lemmas\<close>






lemma between_not_in:
  fixes idx :: "real list"
  assumes "sorted_wrt (<) idx" "i + 1 < length idx" "idx ! i < x" "x < idx ! (i + 1)"
  shows "x \<notin> set idx"
proof
  assume "x \<in> set idx"
  then obtain j where j: "j < length idx" "idx ! j = x"
    by (auto simp: in_set_conv_nth)
  show False
  proof (cases "j \<le> i")
    case True
    then have "idx ! j \<le> idx ! i"
      using assms(1,2) sorted_wrt_nth_less [of "(<)" idx j i] by (cases "j = i") auto
    then show False using j assms(3) by simp
  next
    case False
    then have "idx ! (i + 1) \<le> idx ! j"
      using assms(1) j(1) sorted_wrt_nth_less [of "(<)" idx "i + 1" j] by (cases "j = i + 1") auto
    then show False using j assms(4) by simp
  qed
qed


lemma fillGaps_gap_table:
  "fillGaps (11 / 10) gap_table = Inr (gap_table\<lparr>data := filled_frame\<rparr>, [GapsWarning 1])"
  by code_simp

lemma base_init_keeps_arguments:
  "SizeDist_init (Some gap_frame) [100, 200] ''dNdDp'' (Some [1]) False =
     Inr (\<lparr>bins = [100, 200], bincenters = [1], binwidth = [100],
           distributionType = ''dNdDp'', data = gap_frame\<rparr>, [])"
  by code_simp





section \<open>Layer lemmas\<close>

lemma filter_upt_eq: "j < n \<Longrightarrow> filter (\<lambda>i. i = j) [0 ..< n] = [j]"
proof (induction n)
  case 0
  then show ?case by simp
next
  case (Suc n)
  show ?case
  proof (cases "j = n")
    case True
    have "filter (\<lambda>i. i = n) [0 ..< n] = []"
      by (auto simp: filter_empty_conv)
    then show ?thesis using True by simp
  next
    case False
    then show ?thesis using Suc by simp
  qed
qed

lemma filter_nth_eq:
  assumes "distinct u" "j < length u"
  shows "filter (\<lambda>i. u ! i = u ! j) [0 ..< length u] = [j]"
proof -
  have "filter (\<lambda>i. u ! i = u ! j) [0 ..< length u] = filter (\<lambda>i. i = j) [0 ..< length u]"
    using assms by (intro filter_cong) (auto simp: nth_eq_iff_index_eq)
  then show ?thesis
    using assms(2) by (simp add: filter_upt_eq)
qed

lemma adjacent_iff:
  fixes u :: "real list"
  assumes s: "sorted_wrt (<) u" and i: "i < length u" and j: "j < length u"
  shows "(int i - int j = 1) = (u ! j < u ! i \<and> \<not> (\<exists>b \<in> set u. u ! j < b \<and> b < u ! i))"
proof
  assume "int i - int j = 1"
  then have ij: "i = j + 1" by linarith
  then have "u ! j < u ! i"
    using s i sorted_wrt_nth_less [of "(<)" u j i] by simp
  moreover have "b \<notin> set u" if "u ! j < b" "b < u ! i" for b
    using between_not_in [of u j b] s i ij that by simp
  ultimately show "u ! j < u ! i \<and> \<not> (\<exists>b \<in> set u. u ! j < b \<and> b < u ! i)"
    by blast
next
  assume a: "u ! j < u ! i \<and> \<not> (\<exists>b \<in> set u. u ! j < b \<and> b < u ! i)"
  have lt: "u ! a < u ! b" if "a < b" "b < length u" for a b
    using s that sorted_wrt_nth_less [of "(<)" u a b] by simp
  have "j < i"
  proof (rule ccontr)
    assume "\<not> j < i"
    then have "i = j \<or> i < j" by linarith
    then show False using a lt [of i j] j by auto
  qed
  moreover have "\<not> j + 1 < i"
  proof
    assume b: "j + 1 < i"
    then have "u ! j < u ! (j + 1)" "u ! (j + 1) < u ! i" "u ! (j + 1) \<in> set u"
      using lt [of j "j + 1"] lt [of "j + 1" i] i by auto
    then show False using a by blast
  qed
  ultimately show "int i - int j = 1" by linarith
qed

lemma np_unique_facts:
  "sorted_wrt (<) (np_unique a)" "set (np_unique a) = set (flatten a)"
  by (simp_all add: np_unique_def strict_sorted_iff)

lemma add_layer_check:
  assumes lbs: "layerbounderies self = Arr2 2 rs"
    and conv: "convert2otherDistribution sd (distributionType self) = Inr sd1"
  shows "add_layer self sd [lo, hi] =
     (if hi \<le> lo \<or> (\<exists>b \<in> set (concat rs). lo < b \<and> b < hi) then (Some overlapping, self)
      else
        (let layercenter = (lo + hi) / 2;
             self1 = self\<lparr>layerbounderies := sort_axis0 (Arr2 2 (rs @ [[lo, hi]])),
                          layercenters := Arr1 (sort (flatten (layercenters self) @ [layercenter]))\<rparr>
         in if length (rws (data sd1)) \<noteq> 1
            then (Some (LibraryError ''Length mismatch''), self1)
            else (None,
                  self1\<lparr>data := sort_index
                     ((data self)\<lparr>rws := rws (data self) @
                         map (\<lambda>r. (layercenter, snd r)) (rws (data sd1))\<rparr>)\<rparr>)))"
proof -
  let ?u = "np_unique (Arr2 2 (rs @ [[lo, hi]]))"
  have su: "sorted_wrt (<) ?u" and setu: "set ?u = set (concat rs) \<union> {lo, hi}"
    using np_unique_facts [of "Arr2 2 (rs @ [[lo, hi]])"] by auto
  have du: "distinct ?u"
    using su by (simp add: strict_sorted_iff)
  obtain i where i: "i < length ?u" "?u ! i = hi"
    using setu by (metis Un_iff in_set_conv_nth insertCI)
  obtain j where j: "j < length ?u" "?u ! j = lo"
    using setu by (metis Un_iff in_set_conv_nth insertCI)
  have wi: "np_where_eq ?u hi = [i]"
    using filter_nth_eq [OF du i(1)] i(2) by (simp add: np_where_eq_def)
  have wj: "np_where_eq ?u lo = [j]"
    using filter_nth_eq [OF du j(1)] j(2) by (simp add: np_where_eq_def)
  define ov where "ov = (hi \<le> lo \<or> (\<exists>b \<in> set (concat rs). lo < b \<and> b < hi))"
  have "(int i - int j = 1) = (lo < hi \<and> \<not> (\<exists>b \<in> set ?u. lo < b \<and> b < hi))"
    using adjacent_iff [OF su i(1) j(1)] i(2) j(2) by simp
  also have "\<dots> = (\<not> ov)"
    unfolding setu ov_def by auto
  finally have adj: "(int i - int j \<noteq> 1) = ov"
    by blast
  have "add_layer self sd [lo, hi] =
     (if ov then (Some overlapping, self)
      else
        (let layercenter = (lo + hi) / 2;
             self1 = self\<lparr>layerbounderies := sort_axis0 (Arr2 2 (rs @ [[lo, hi]])),
                          layercenters := Arr1 (sort (flatten (layercenters self) @ [layercenter]))\<rparr>
         in if length (rws (data sd1)) \<noteq> 1
            then (Some (LibraryError ''Length mismatch''), self1)
            else (None,
                  self1\<lparr>data := sort_index
                     ((data self)\<lparr>rws := rws (data self) @
                         map (\<lambda>r. (layercenter, snd r)) (rws (data sd1))\<rparr>)\<rparr>)))"
    unfolding add_layer_def
    by (simp add: lbs conv wi wj adj Let_def del: flatten.simps sort_axis0.simps)
  then show ?thesis
    unfolding ov_def .
qed

lemma empty_layers_init:
  "SizeDist_LS_init None [100, 200] ''dNdDp'' None None True = Inr (empty_layers, [])"
  by code_simp

lemma convert_same: "distributionType self = k \<Longrightarrow> convert2otherDistribution self k = Inr self"
  by (subst convert2otherDistribution.simps) simp

lemma one_row_converts:
  "convert2otherDistribution one_row (distributionType empty_layers) = Inr one_row"
  "convert2otherDistribution one_row (distributionType one_layer) = Inr one_row"
  by (rule convert_same; simp add: one_row_def empty_layers_def one_layer_def)+

lemma array_sorts:
  "sort_axis0 (Arr2 2 [[100, 200]]) = Arr2 2 [[100, 200]]"
  "sort_axis0 (Arr2 2 [[100, 200], [200, 300]]) = Arr2 2 [[100, 200], [200, 300]]"
  "sort_axis0 (Arr2 2 [[100, 300]]) = Arr2 2 [[100, 300]]"
  "sort_axis0 (Arr2 2 [[100, 300], [150, 200]]) = Arr2 2 [[100, 200], [150, 300]]"
  by code_simp+

lemma first_layer:
  "add_layer empty_layers one_row [100, 200] = (None, one_layer)"
  using add_layer_check [OF _ one_row_converts(1), of "[]" 100 200]
  by (simp add: empty_layers_def one_layer_def one_row_def array_sorts sort_index_def
        del: sort_axis0.simps)

lemma overlapping_layer:
  "add_layer one_layer one_row [150, 250] = (Some overlapping, one_layer)"
  using add_layer_check [OF _ one_row_converts(2), of "[[100, 200]]" 150 250]
  by (simp add: empty_layers_def one_layer_def)

lemma second_layer:
  "add_layer one_layer one_row [200, 300] =
     (None, empty_layers\<lparr>layerbounderies := Arr2 2 [[100, 200], [200, 300]],
        layercenters := Arr1 [150, 250],
        data := \<lparr>columns = 1, rws = [(150, [500]), (250, [500])]\<rparr>\<rparr>)"
  using add_layer_check [OF _ one_row_converts(2), of "[[100, 200]]" 200 300]
  by (simp add: empty_layers_def one_layer_def one_row_def array_sorts sort_index_def
        del: sort_axis0.simps)

lemma convert_dNdDp_to_numberConcentration:
  assumes "distributionType self = ''dNdDp''" "length (binwidth self) = columns (data self)"
  shows "convert2otherDistribution self ''numberConcentration'' =
     Inr (self\<lparr>data := (data self)\<lparr>rws :=
              map (\<lambda>r. (fst r, map2 (*) (snd r) (binwidth self))) (rws (data self))\<rparr>,
            distributionType := ''numberConcentration''\<rparr>)"
  using assms
  by (subst convert2otherDistribution.simps)
     (simp add: diameter_axis_def weighting_axis_def convert_same frame_op_def)

section \<open>Loader lemmas\<close>

lemma upt_header: "[0 ..< headerNo] = 0 # 1 # 2 # 3 # [4 ..< 50]"
  by code_simp

lemma split_on_no_sep: "c \<notin> set s \<Longrightarrow> split_on c s = [s]"
  by (induction s) auto

lemma split_on_nonempty: "split_on c s \<noteq> []"
  by (induction s) (auto split: list.splits)

lemma split_on_sep: "c \<notin> set p \<Longrightarrow> split_on c (p @ c # r) = p # split_on c r"
  by (induction p) (auto split: list.splits)

lemma header_of_lines:
  assumes l0: "split_on (CHR ''='') l0 = [''bins '', w0]" "ev (strip w0) = Inr b"
    and l1: "split_on (CHR ''='') l1 = ''distributionType '' # w1 # r1"
    and l2: "split_on (CHR ''='') l2 = ''objectType '' # w2 # r2"
    and l3: "split_on (CHR ''='') l3 = (CHR ''#'' # h) # r3"
  shows "header_loop ev (l0 # l1 # l2 # l3 # rest) [0 ..< headerNo] 0 Map.empty =
     Inr (3, [''bins'' \<mapsto> Arr b, ''distributionType'' \<mapsto> Str (strip w1),
              ''objectType'' \<mapsto> Str (strip w2)])"
proof -
  have s: "strip ''bins '' = ''bins''" "strip ''distributionType '' = ''distributionType''"
    "strip ''objectType '' = ''objectType''"
    by (simp_all add: strip_def is_space_def)
  have r: "readline (l0 # l1 # l2 # l3 # rest) 0 = l0" "readline (l0 # l1 # l2 # l3 # rest) 1 = l1"
    "readline (l0 # l1 # l2 # l3 # rest) 2 = l2" "readline (l0 # l1 # l2 # l3 # rest) 3 = l3"
    by (simp_all add: readline_def)
  have "header_loop ev (l0 # l1 # l2 # l3 # rest) (0 # 1 # 2 # 3 # [4 ..< 50]) 0 Map.empty =
     Inr (3, [''bins'' \<mapsto> Arr b, ''distributionType'' \<mapsto> Str (strip w1),
              ''objectType'' \<mapsto> Str (strip w2)])"
    unfolding header_loop.simps r l0 l1 l2 l3
    by (simp add: s l0(2) Let_def headerNo_def)
  then show ?thesis
    unfolding upt_header .
qed

section \<open>Same-kind conversion\<close>

text \<open>
  C8. Converting a table to the kind it already has returns the copy unchanged: the result
  is the source value itself, no arithmetic is applied to any entry.
\<close>

theorem convert_same_kind_is_copy:
  "distributionType self = k \<Longrightarrow> convert2otherDistribution self k = Inr self"
  by (subst convert2otherDistribution.simps) simp

theorem convert_same_kind_is_copy_witness:
  "distributionType example_table = ''dNdDp'' \<and>
   convert2otherDistribution example_table ''dNdDp'' = Inr example_table"
  using convert_same_kind_is_copy [of example_table "''dNdDp''"]
  by (simp add: example_table_def)

section \<open>Round trip between the six kinds\<close>



section \<open>The kind \<open>calibration\<close>\<close>

text \<open>
  C5, as the source has it. The claim says that the error of an unsupported conversion
  identifies both kinds. The source raises \<open>ValueError('%s is not an option' % distType)\<close>:
  the message names one kind only, the target of the call that fails. Converting a
  \<open>calibration\<close> table to \<open>dVdDp\<close> raises with the message \<open>dVdDp is not an option\<close>, which
  does not name the source kind.
\<close>

theorem calibration_error_names_one_kind:
  "convert2otherDistribution (example_table\<lparr>distributionType := ''calibration''\<rparr>) ''dVdDp''
     = Inl (ValueError ''dVdDp is not an option'') \<and>
   \<not> mentions ''dVdDp is not an option'' ''calibration''"
proof -
  have "convert2otherDistribution (example_table\<lparr>distributionType := ''calibration''\<rparr>) ''dVdDp''
     = Inl (ValueError ''dVdDp is not an option'')"
    using calibration_source [of "example_table\<lparr>distributionType := ''calibration''\<rparr>" "''dVdDp''"]
    by simp
  moreover have "\<not> mentions ''dVdDp is not an option'' ''calibration''"
    by simp
  ultimately show ?thesis by blast
qed

text \<open>
  C5, amended. A \<open>calibration\<close> table converted to any other kind raises \<open>ValueError\<close>
  with the message \<open>t is not an option\<close>, where \<open>t\<close> is the target, or \<open>dNdDp\<close> when the
  target is \<open>numberConcentration\<close> (the nested call of \<open>convert2dNdDp\<close> fails). A table of any
  other kind, whose bin arrays have one entry per column, converted to \<open>calibration\<close> raises
  \<open>ValueError\<close> with the message \<open>calibration is not an option\<close>. A conversion to the kind
  the table has returns the copy unchanged, \<open>calibration\<close> included.
\<close>

theorem calibration_conversion:
  "(distributionType self = ''calibration'' \<and> t \<noteq> ''calibration'' \<longrightarrow>
      convert2otherDistribution self t =
        Inl (ValueError ((if t = ''numberConcentration'' then ''dNdDp'' else t) @ '' is not an option''))) \<and>
   (distributionType self \<noteq> ''calibration'' \<and>
    length (bincenters self) = columns (data self) \<and>
    length (binwidth self) = columns (data self) \<longrightarrow>
      convert2otherDistribution self ''calibration'' =
        Inl (ValueError ''calibration is not an option'')) \<and>
   (distributionType self = t \<longrightarrow> convert2otherDistribution self t = Inr self)"
proof (intro conjI impI)
  assume "distributionType self = ''calibration'' \<and> t \<noteq> ''calibration''"
  then show "convert2otherDistribution self t =
      Inl (ValueError ((if t = ''numberConcentration'' then ''dNdDp'' else t) @ '' is not an option''))"
    using calibration_source [of self t] by blast
next
  assume "distributionType self \<noteq> ''calibration'' \<and>
    length (bincenters self) = columns (data self) \<and>
    length (binwidth self) = columns (data self)"
  then show "convert2otherDistribution self ''calibration'' =
      Inl (ValueError ''calibration is not an option'')"
    using calibration_target [of self] by blast
next
  assume "distributionType self = t"
  then show "convert2otherDistribution self t = Inr self"
    by (subst convert2otherDistribution.simps) simp
qed

theorem calibration_conversion_witness:
  "convert2otherDistribution (example_table\<lparr>distributionType := ''calibration''\<rparr>)
      ''numberConcentration'' = Inl (ValueError ''dNdDp is not an option'') \<and>
   convert2otherDistribution example_table ''calibration'' =
      Inl (ValueError ''calibration is not an option'') \<and>
   convert2otherDistribution (example_table\<lparr>distributionType := ''calibration''\<rparr>) ''calibration''
      = Inr (example_table\<lparr>distributionType := ''calibration''\<rparr>)"
  using calibration_conversion
          [of "example_table\<lparr>distributionType := ''calibration''\<rparr>" "''numberConcentration''"]
        calibration_conversion [of example_table "''calibration''"]
        calibration_conversion
          [of "example_table\<lparr>distributionType := ''calibration''\<rparr>" "''calibration''"]
  by (simp add: example_table_def)

section \<open>Gap filling\<close>




section \<open>The constructor of the layer-indexed distribution\<close>

text \<open>
  C10. \<open>SizeDist_LS.__init__\<close> gives the same result whatever the caller passes for
  \<open>bincenters\<close> and \<open>fixGaps\<close>: it is the result for \<open>bincenters=False\<close> and
  \<open>fixGaps=True\<close>. With row data supplied, the bin centers are the midpoints of the bin
  edges and the table is the one \<open>fillGaps\<close> returns. (The base constructor, lemma
  \<open>base_init_keeps_arguments\<close>, keeps the bin centers passed and leaves the gaps.)
\<close>

theorem LS_init_fixed_arguments:
  "SizeDist_LS_init dat bns k lbs bcs fg = SizeDist_LS_init dat bns k lbs None True \<and>
   SizeDist_LS_init (Some df) bns k lbs bcs fg =
     (case fillGaps (11 / 10)
             \<lparr>bins = bns, bincenters = map (\<lambda>x. x / 2) (map2 (+) (tl bns) (butlast bns)),
              binwidth = map2 (\<lambda>a b. a - b) (tl bns) (butlast bns),
              distributionType = k, data = df\<rparr> of
        Inl e \<Rightarrow> Inl e
      | Inr (self, ws) \<Rightarrow>
          Inr (sizedist.extend self
                 (sizedist_LS.fields (case lbs of None \<Rightarrow> Arr2 2 [] | Some lb \<Rightarrow> lb)
                    (case lbs of None \<Rightarrow> Arr1 [] | Some lb \<Rightarrow> midpoints lb)), ws))"
  by (auto simp: SizeDist_LS_init_def SizeDist_init_def split: sum.splits option.splits)

theorem LS_init_fixed_arguments_witness:
  "SizeDist_LS_init (Some gap_frame) [100, 200] ''dNdDp'' None (Some [1]) False =
     Inr (\<lparr>bins = [100, 200], bincenters = [150], binwidth = [100],
           distributionType = ''dNdDp'', data = filled_frame,
           layerbounderies = Arr2 2 [], layercenters = Arr1 []\<rparr>, [GapsWarning 1])"
proof -
  have "SizeDist_LS_init (Some gap_frame) [100, 200] ''dNdDp'' None (Some [1]) False =
     (case fillGaps (11 / 10)
             \<lparr>bins = [100, 200],
              bincenters = map (\<lambda>x. x / 2) (map2 (+) (tl [100, 200]) (butlast [100, 200])),
              binwidth = map2 (\<lambda>a b. a - b) (tl [100, 200]) (butlast [100, 200]),
              distributionType = ''dNdDp'', data = gap_frame\<rparr> of
        Inl e \<Rightarrow> Inl e
      | Inr (self, ws) \<Rightarrow>
          Inr (sizedist.extend self
                 (sizedist_LS.fields (case None of None \<Rightarrow> Arr2 2 [] | Some lb \<Rightarrow> lb)
                    (case None of None \<Rightarrow> Arr1 [] | Some lb \<Rightarrow> midpoints lb)), ws))"
    by (rule LS_init_fixed_arguments [THEN conjunct2])
  also have "\<dots> = Inr (\<lparr>bins = [100, 200], bincenters = [150], binwidth = [100],
           distributionType = ''dNdDp'', data = filled_frame,
           layerbounderies = Arr2 2 [], layercenters = Arr1 []\<rparr>, [GapsWarning 1])"
    by code_simp
  finally show ?thesis .
qed

section \<open>Adding a layer\<close>

text \<open>
  C4, as the source has it. The claim says that \<open>add_layer\<close> raises the overlap error
  exactly when some existing boundary value lies strictly between \<open>low\<close> and \<open>high\<close>.
  The source raises it when the position of \<open>high\<close> in the sorted boundary values is not
  the position of \<open>low\<close> plus one: for the pair (200, 100) on a distribution without
  layers the boundary values are 100 and 200, no value lies between them, and the error is
  raised. And the incoming distribution is converted first: for an incoming \<open>calibration\<close>
  distribution and the overlapping pair (150, 250) the conversion error is raised, not the
  overlap error.
\<close>

theorem add_layer_raises_without_value_between:
  "add_layer empty_layers one_row [200, 100] = (Some overlapping, empty_layers) \<and>
   np_unique (Arr2 2 [[200, 100]]) = [100, 200] \<and>
   add_layer one_layer (one_row\<lparr>distributionType := ''calibration''\<rparr>) [150, 250] =
     (Some (ValueError ''dNdDp is not an option''), one_layer)"
proof -
  have "add_layer empty_layers one_row [200, 100] = (Some overlapping, empty_layers)"
    using add_layer_check [OF _ one_row_converts(1), of "[]" 200 100]
    by (simp add: empty_layers_def)
  moreover have "np_unique (Arr2 2 [[200, 100]]) = [100, 200]"
    by code_simp
  moreover have "add_layer one_layer (one_row\<lparr>distributionType := ''calibration''\<rparr>) [150, 250] =
     (Some (ValueError ''dNdDp is not an option''), one_layer)"
    using calibration_source [of "one_row\<lparr>distributionType := ''calibration''\<rparr>" "''dNdDp''"]
    by (simp add: add_layer_def one_layer_def empty_layers_def)
  ultimately show ?thesis by blast
qed

text \<open>
  C4, amended. For a distribution whose boundaries are a two-column array and a pair
  \<open>(lo, hi)\<close>: if the conversion of the incoming distribution to the host's kind raises,
  \<open>add_layer\<close> raises that error and leaves the host unchanged. Otherwise it raises the
  overlap error exactly when \<open>hi \<le> lo\<close> or some existing boundary value lies strictly
  between \<open>lo\<close> and \<open>hi\<close>, again leaving the host unchanged. Otherwise, for a converted
  distribution of one row, it succeeds: the pair is appended to the boundaries, which are
  sorted column by column, the center \<open>(lo + hi) / 2\<close> joins the sorted layer centers, and
  the row is inserted at the key \<open>(lo + hi) / 2\<close> with the rows sorted by key.
\<close>

theorem add_layer_overlap_check:
  assumes "layerbounderies self = Arr2 2 rs"
  shows "(convert2otherDistribution sd (distributionType self) = Inl e \<longrightarrow>
            add_layer self sd [lo, hi] = (Some e, self)) \<and>
         (convert2otherDistribution sd (distributionType self) = Inr sd1 \<longrightarrow>
            ((fst (add_layer self sd [lo, hi]) = Some overlapping) =
               (hi \<le> lo \<or> (\<exists>b \<in> set (concat rs). lo < b \<and> b < hi))) \<and>
            (fst (add_layer self sd [lo, hi]) = Some overlapping \<longrightarrow>
               snd (add_layer self sd [lo, hi]) = self) \<and>
            (length (rws (data sd1)) = 1 \<and>
             \<not> (hi \<le> lo \<or> (\<exists>b \<in> set (concat rs). lo < b \<and> b < hi)) \<longrightarrow>
               add_layer self sd [lo, hi] =
                 (None,
                  self\<lparr>layerbounderies := sort_axis0 (Arr2 2 (rs @ [[lo, hi]])),
                       layercenters := Arr1 (sort (flatten (layercenters self) @ [(lo + hi) / 2])),
                       data := sort_index
                         ((data self)\<lparr>rws := rws (data self) @
                             [((lo + hi) / 2, snd (hd (rws (data sd1))))]\<rparr>)\<rparr>) \<and>
               sorted (frame_index (data (snd (add_layer self sd [lo, hi]))))))"
proof (intro conjI impI)
  assume "convert2otherDistribution sd (distributionType self) = Inl e"
  then show "add_layer self sd [lo, hi] = (Some e, self)"
    by (simp add: add_layer_def)
next
  assume c: "convert2otherDistribution sd (distributionType self) = Inr sd1"
  note chk = add_layer_check [OF assms c, of lo hi]
  define ov where "ov = (hi \<le> lo \<or> (\<exists>b \<in> set (concat rs). lo < b \<and> b < hi))"
  have ne: "overlapping \<noteq> LibraryError ''Length mismatch''"
    by (simp add: overlapping_def)
  show "(fst (add_layer self sd [lo, hi]) = Some overlapping) =
      (hi \<le> lo \<or> (\<exists>b \<in> set (concat rs). lo < b \<and> b < hi))"
    using ne unfolding chk ov_def [symmetric] by (simp add: Let_def)
  {
    assume "fst (add_layer self sd [lo, hi]) = Some overlapping"
    then show "snd (add_layer self sd [lo, hi]) = self"
      using ne unfolding chk ov_def [symmetric] by (simp add: Let_def split: if_splits)
  }
  {
    assume a: "length (rws (data sd1)) = 1 \<and>
       \<not> (hi \<le> lo \<or> (\<exists>b \<in> set (concat rs). lo < b \<and> b < hi))"
    then obtain r where r: "rws (data sd1) = [r]"
      by (cases "rws (data sd1)") auto
    show res: "add_layer self sd [lo, hi] =
       (None,
        self\<lparr>layerbounderies := sort_axis0 (Arr2 2 (rs @ [[lo, hi]])),
             layercenters := Arr1 (sort (flatten (layercenters self) @ [(lo + hi) / 2])),
             data := sort_index
               ((data self)\<lparr>rws := rws (data self) @
                   [((lo + hi) / 2, snd (hd (rws (data sd1))))]\<rparr>)\<rparr>)"
      using a r unfolding chk ov_def [symmetric] by (simp add: Let_def)
    show "sorted (frame_index (data (snd (add_layer self sd [lo, hi]))))"
      unfolding res by (simp add: frame_index_def sort_index_def)
  }
qed

theorem add_layer_overlap_check_witness:
  "layerbounderies one_layer = Arr2 2 [[100, 200]] \<and>
   add_layer one_layer one_row [150, 250] = (Some overlapping, one_layer) \<and>
   add_layer one_layer one_row [200, 300] = (None, two_layers) \<and>
   layercenters two_layers = Arr1 [150, 250] \<and>
   add_layer one_layer (one_row\<lparr>distributionType := ''calibration''\<rparr>) [200, 300] =
     (Some (ValueError ''dNdDp is not an option''), one_layer)"
proof -
  have l: "layerbounderies one_layer = Arr2 2 [[100, 200]]"
    by (simp add: one_layer_def)
  have c: "convert2otherDistribution (one_row\<lparr>distributionType := ''calibration''\<rparr>)
      (distributionType one_layer) = Inl (ValueError ''dNdDp is not an option'')"
    using calibration_source [of "one_row\<lparr>distributionType := ''calibration''\<rparr>" "''dNdDp''"]
    by (simp add: one_layer_def empty_layers_def)
  have 1: "add_layer one_layer one_row [150, 250] = (Some overlapping, one_layer)"
    using add_layer_overlap_check [OF l, where sd = one_row and ?sd1.0 = one_row and lo = 150 and hi = 250] one_row_converts(2)
    by (simp add: prod_eq_iff)
  have 2: "add_layer one_layer one_row [200, 300] = (None, two_layers)"
    using add_layer_overlap_check [OF l, where sd = one_row and ?sd1.0 = one_row and lo = 200 and hi = 300] one_row_converts(2)
    by (simp add: one_layer_def two_layers_def empty_layers_def one_row_def array_sorts
          sort_index_def del: sort_axis0.simps)
  have 3: "add_layer one_layer (one_row\<lparr>distributionType := ''calibration''\<rparr>) [200, 300] =
     (Some (ValueError ''dNdDp is not an option''), one_layer)"
    using add_layer_overlap_check
      [OF l, where sd = "one_row\<lparr>distributionType := ''calibration''\<rparr>"
         and e = "ValueError ''dNdDp is not an option''" and lo = 200 and hi = 300] c
    by simp
  show ?thesis
    using l 1 2 3 by (simp add: two_layers_def)
qed

section \<open>The layer invariant\<close>

text \<open>
  C7 says that the boundary pairs of a distribution built by \<open>add_layer\<close> never overlap
  and that every row key is the midpoint of its pair. On a distribution without layers,
  \<open>add_layer\<close> accepts the layer (100, 300) and then the layer (150, 200), which lies
  inside it: 150 and 200 are neighbours among the boundary values 100, 150, 200, 300. The
  column-wise sort then leaves the pairs (100, 200) and (150, 300), which overlap, with the
  row keys 175 and 200: the first pair's midpoint 150 is no row key.
\<close>

theorem add_layer_accepts_contained_layer:
  "add_layer empty_layers one_row [100, 300] = (None, wide_layer) \<and>
   add_layer wide_layer one_row [150, 200] =
     (None, wide_layer\<lparr>layerbounderies := Arr2 2 [[100, 200], [150, 300]],
        layercenters := Arr1 [175, 200],
        data := \<lparr>columns = 1, rws = [(175, [500]), (200, [500])]\<rparr>\<rparr>)"
proof -
  have c: "convert2otherDistribution one_row (distributionType wide_layer) = Inr one_row"
    by (rule convert_same) (simp add: one_row_def wide_layer_def empty_layers_def)
  have "add_layer empty_layers one_row [100, 300] = (None, wide_layer)"
    using add_layer_check [OF _ one_row_converts(1), of "[]" 100 300]
    by (simp add: empty_layers_def wide_layer_def one_row_def array_sorts sort_index_def
          del: sort_axis0.simps)
  moreover have "add_layer wide_layer one_row [150, 200] =
     (None, wide_layer\<lparr>layerbounderies := Arr2 2 [[100, 200], [150, 300]],
        layercenters := Arr1 [175, 200],
        data := \<lparr>columns = 1, rws = [(175, [500]), (200, [500])]\<rparr>\<rparr>)"
    using add_layer_check [OF _ c, of "[[100, 300]]" 150 200]
    by (simp add: empty_layers_def wide_layer_def one_row_def array_sorts sort_index_def
          del: sort_axis0.simps)
  ultimately show ?thesis by blast
qed

section \<open>Aerosol optical depth of several layers\<close>

text \<open>
  C2 says that the cross-section of a bin is computed once and used with the same value
  for every layer. \<open>_get_coefficients\<close> scales the series it is passed in place
  (\<open>crossection *= 1e-12\<close>), and \<open>calculate_AOD\<close> passes the same series
  \<open>mie.extinction_crossection\<close> for every layer. In \<open>two_layers\<close> both layers hold the
  same concentration and are equally thick; with \<open>cs\<close> the cross-section of the one bin,
  the first layer gets the extinction coefficient \<open>cs / 20\<close> and the optical depth
  \<open>5 * cs\<close>, the second layer \<open>10\<^sup>1\<^sup>2\<close> times less.
\<close>

theorem calculate_AOD_second_layer:
  "calculate_AOD bhmie two_layers 600 n =
     (let cs = bhmie (2 * pi * (150 / 1000 / 2) / (600 / 1000)) n 100 (150 / 1000)
      in Inr (\<lparr>AOD = 5 * cs + 5 * cs / 10 ^ 12,
               AOD_layer = [(150, 5 * cs), (250, 5 * cs / 10 ^ 12)],
               extCoeffPerLayer = [(150, [cs / 20]), (250, [cs / 20 / 10 ^ 12])]\<rparr>,
              [AODGaps]))"
proof -
  have c: "convert2otherDistribution two_layers ''numberConcentration'' =
     Inr (two_layers\<lparr>data := \<lparr>columns = 1, rws = [(150, [50000]), (250, [50000])]\<rparr>,
            distributionType := ''numberConcentration''\<rparr>)"
    using convert_dNdDp_to_numberConcentration [of two_layers]
    by (simp add: two_layers_def empty_layers_def)
  show ?thesis
    unfolding calculate_AOD_def c
    by (simp add: two_layers_def empty_layers_def perform_Miecalculations_def loc_get_def
          get_coefficients_def Let_def)
qed

section \<open>Loading a saved layer-indexed distribution\<close>

text \<open>
  C6 says that a table of any of the three classes comes back from \<open>save_csv\<close> followed
  by \<open>read_distribution_csv\<close> with the same class. For a file that \<open>save_csv\<close> wrote
  for a \<open>SizeDist_LS\<close> object (bin text without \<open>=\<close>, which \<open>eval\<close> reads, and a table
  that pandas reads), the loader reaches the branch for \<open>SizeDist_LS\<close> and raises
  \<open>TypeError\<close>: the constructor is called without its argument \<open>layerbounderies\<close>.
\<close>

theorem load_of_saved_layer_distribution:
  assumes "CHR ''='' \<notin> set (rp (bins self))"
    and "ev (strip ('' '' @ rp (bins self) @ nl)) = Inr b"
    and "rd (save_csv rp tc ''SizeDist_LS'' self) 4 = Inr df"
    and "td (frame_index df) = Inr idx"
  shows "read_distribution_csv ev rd td (save_csv rp tc ''SizeDist_LS'' self) fixGaps =
     Inl (TypeError ''__init__() missing 1 required positional argument: layerbounderies'')"
proof -
  let ?ls = "save_csv rp tc ''SizeDist_LS'' self"
  have 0: "split_on (CHR ''='') (''bins = '' @ rp (bins self) @ nl) =
      [''bins '', '' '' @ rp (bins self) @ nl]"
    using split_on_sep [of "CHR ''=''" "''bins ''" "'' '' @ rp (bins self) @ nl"] assms(1)
    by (simp add: split_on_no_sep nl_def)
  obtain q qs where 1: "split_on (CHR ''='') (''distributionType = '' @ distributionType self @ nl) =
      ''distributionType '' # q # qs"
    using split_on_sep [of "CHR ''=''" "''distributionType ''" "'' '' @ distributionType self @ nl"]
      split_on_nonempty [of "CHR ''=''" "'' '' @ distributionType self @ nl"]
    by (cases "split_on (CHR ''='') ('' '' @ distributionType self @ nl)") auto
  have 2: "split_on (CHR ''='') (''objectType = '' @ ''SizeDist_LS'' @ nl) =
      ''objectType '' # ('' SizeDist_LS'' @ nl) # []"
    by (simp add: nl_def)
  have 3: "split_on (CHR ''='') (''#'' @ nl) = (CHR ''#'' # nl) # []"
    by (simp add: nl_def)
  have ls: "?ls = (''bins = '' @ rp (bins self) @ nl) #
      (''distributionType = '' @ distributionType self @ nl) #
      (''objectType = '' @ ''SizeDist_LS'' @ nl) # (''#'' @ nl) # tc (data self)"
    unfolding save_csv_def by simp
  have "header_loop ev ?ls [0 ..< headerNo] 0 Map.empty =
     Inr (3, [''bins'' \<mapsto> Arr b, ''distributionType'' \<mapsto> Str (strip q),
              ''objectType'' \<mapsto> Str (strip ('' SizeDist_LS'' @ nl))])"
    unfolding ls
    by (rule header_of_lines [where ev = ev and b = b, OF 0 assms(2) 1 2 3])
  moreover have "strip ('' SizeDist_LS'' @ nl) = ''SizeDist_LS''"
    by (simp add: strip_def is_space_def nl_def)
  ultimately show ?thesis
    using assms(3,4)
    by (simp add: read_distribution_csv_def dict_bins_def dict_type_def Let_def)
qed

theorem load_of_saved_layer_distribution_witness:
  "CHR ''='' \<notin> set ''[100.0, 200.0]'' \<and>
   read_distribution_csv (\<lambda>s. Inr [100, 200])
     (\<lambda>ls h. Inr \<lparr>columns = 1, rws = [(150, [500])]\<rparr>) Inr
     (save_csv (\<lambda>b. ''[100.0, 200.0]'') (\<lambda>df. ['',100.0-200.0'' @ nl, ''150.0,500.0'' @ nl])
        ''SizeDist_LS'' one_layer) True
   = Inl (TypeError ''__init__() missing 1 required positional argument: layerbounderies'')"
proof -
  have h: "CHR ''='' \<notin> set ((\<lambda>b. ''[100.0, 200.0]'') (bins one_layer))"
    by simp
  show ?thesis
    using h load_of_saved_layer_distribution
      [where rp = "\<lambda>b. ''[100.0, 200.0]''" and self = one_layer
         and ev = "\<lambda>s. Inr [100, 200]" and b = "[100, 200]"
         and rd = "\<lambda>ls h. Inr \<lparr>columns = 1, rws = [(150, [500])]\<rparr>"
         and df = "\<lparr>columns = 1, rws = [(150, [500])]\<rparr>"
         and td = Inr and idx = "[150]"
         and tc = "\<lambda>df. ['',100.0-200.0'' @ nl, ''150.0,500.0'' @ nl]" and fixGaps = True]
    by (simp add: frame_index_def)
qed

end
